theory Spec2Isabelle
  imports Complex_Main
begin

section \<open>Loan amortisation: the functions of loan.py\<close>

text \<open>
  The numbers of \<^verbatim>\<open>loan.py\<close> are Python floats. They are modelled as exact reals:
  rounding of the binary arithmetic, overflow, infinities and NaN are outside this
  development, and every statement below is about the arithmetic the formulas denote.
  What Python raises is kept: a division by zero, a logarithm outside its domain and the
  translation of exceptions by \<^verbatim>\<open>try/except\<close> are branches of the model.
\<close>

subsection \<open>Exceptions and primitive operations\<close>

text \<open>
  \<open>ComplexValue\<close> is not an exception of Python: a negative base raised to a
  fractional exponent evaluates to a complex number there, which a real-valued model
  cannot carry. The model stops with this marker instead.
\<close>

datatype py_error = ZeroDivisionError | ValueError string | ComplexValue

type_synonym 'a result = "py_error + 'a"

definition bind_result :: "'a result \<Rightarrow> ('a \<Rightarrow> 'b result) \<Rightarrow> 'b result" where
  "bind_result m k = (case m of Inl e \<Rightarrow> Inl e | Inr v \<Rightarrow> k v)"

text \<open>\<^verbatim>\<open>a / b\<close> on floats raises ZeroDivisionError when \<open>b\<close> is zero.\<close>

definition py_div :: "real \<Rightarrow> real \<Rightarrow> real result" where
  "py_div a b = (if b = 0 then Inl ZeroDivisionError else Inr (a / b))"

text \<open>
  \<^verbatim>\<open>x ** y\<close>: the exponent is an \<^verbatim>\<open>int\<close> in \<^verbatim>\<open>generate_schedule\<close> and a
  \<^verbatim>\<open>float\<close> when the user interface calls the solvers; both are a real here, and an
  integral exponent is repeated multiplication (or its reciprocal), any other one the
  real power of a positive base.
\<close>

definition py_pow :: "real \<Rightarrow> real \<Rightarrow> real result" where
  "py_pow x y =
     (if x = 0 then
        (if y < 0 then Inl ZeroDivisionError else if y = 0 then Inr 1 else Inr 0)
      else if of_int \<lfloor>y\<rfloor> = y then
        (if 0 \<le> y then Inr (x ^ nat \<lfloor>y\<rfloor>) else Inr (1 / x ^ nat (- \<lfloor>y\<rfloor>)))
      else if 0 < x then Inr (x powr y)
      else Inl ComplexValue)"

text \<open>\<^verbatim>\<open>math.log(x)\<close> raises ValueError unless \<open>x\<close> is positive.\<close>

definition py_log :: "real \<Rightarrow> real result" where
  "py_log x = (if x \<le> 0 then Inl (ValueError ''math domain error'') else Inr (ln x))"

text \<open>\<^verbatim>\<open>int(x)\<close> truncates towards zero.\<close>

definition py_int :: "real \<Rightarrow> int" where
  "py_int x = (if 0 \<le> x then \<lfloor>x\<rfloor> else \<lceil>x\<rceil>)"

text \<open>
  \<^verbatim>\<open>round(x, 2)\<close>: the nearest multiple of one hundredth, a tie going to the even
  neighbour.
\<close>

definition round_half_even :: "real \<Rightarrow> int" where
  "round_half_even y =
     (let f = \<lfloor>y\<rfloor>; d = y - of_int f
      in if d < 1 / 2 then f
         else if 1 / 2 < d then f + 1
         else if even f then f else f + 1)"

definition py_round2 :: "real \<Rightarrow> real" where
  "py_round2 x = of_int (round_half_even (x * 100)) / 100"

text \<open>\<^verbatim>\<open>range(a, b)\<close> over integers.\<close>

definition py_range :: "int \<Rightarrow> int \<Rightarrow> int list" where
  "py_range a b = [a..b - 1]"

subsection \<open>The four solvers\<close>

definition calculate_emi :: "real \<Rightarrow> real \<Rightarrow> real \<Rightarrow> real result" where
  "calculate_emi P R N =
     (let r = R / 12 / 100
      in if r = 0 then py_div P N
         else bind_result (py_pow (1 + r) N) (\<lambda>a.
              bind_result (py_pow (1 + r) N) (\<lambda>b.
              py_div (P * r * a) (b - 1))))"


definition tenure_message :: string where
  "tenure_message = ''Unable to calculate tenure. Check your values.''"

text \<open>The body of the \<^verbatim>\<open>try\<close> block of \<^verbatim>\<open>calculate_tenure\<close>.\<close>

definition tenure_try :: "real \<Rightarrow> real \<Rightarrow> real \<Rightarrow> real result" where
  "tenure_try P r E =
     bind_result (py_div E (E - P * r)) (\<lambda>q.
     bind_result (py_log q) (\<lambda>l1.
     bind_result (py_log (1 + r)) (\<lambda>l2.
     py_div l1 l2)))"

definition calculate_tenure :: "real \<Rightarrow> real \<Rightarrow> real \<Rightarrow> real result" where
  "calculate_tenure P R E =
     (let r = R / 12 / 100
      in if r = 0 then py_div P E
         else (case tenure_try P r E of
                 Inl (ValueError m) \<Rightarrow> Inl (ValueError tenure_message)
               | Inl ZeroDivisionError \<Rightarrow> Inl (ValueError tenure_message)
               | Inl e \<Rightarrow> Inl e
               | Inr n \<Rightarrow> Inr n))"






subsection \<open>The schedule\<close>

record row =
  Month :: int
  EMI :: real
  Principal :: real
  Interest :: real
  Balance :: real

text \<open>
  One pass of the \<^verbatim>\<open>for\<close> loop: the state is the carried balance and the rows
  appended so far. The row holds rounded figures, the carried balance is not rounded.
\<close>

definition loop_body :: "real \<Rightarrow> real \<Rightarrow> real \<times> row list \<Rightarrow> int \<Rightarrow> real \<times> row list" where
  "loop_body emi r st i =
     (let balance = fst st;
          schedule = snd st;
          interest = balance * r;
          principal_component = emi - interest;
          balance1 = balance - principal_component;
          balance2 = max balance1 0
      in (balance2,
          schedule @ [\<lparr>Month = i, EMI = py_round2 emi,
                        Principal = py_round2 principal_component,
                        Interest = py_round2 interest,
                        Balance = py_round2 balance2\<rparr>]))"

definition generate_schedule :: "real \<Rightarrow> real \<Rightarrow> real \<Rightarrow> row list result" where
  "generate_schedule P R N0 =
     (let N = py_int N0;
          r = R / 12 / 100
      in bind_result (calculate_emi P R (of_int N)) (\<lambda>emi.
         Inr (snd (foldl (loop_body emi r) (P, []) (py_range 1 (N + 1))))))"

subsection \<open>Notions of the proofs\<close>





section \<open>Properties\<close>

subsection \<open>Powers and the payment formula\<close>








subsection \<open>Zero rate\<close>

text \<open>
  C9. With a zero rate and a positive number of periods, \<^verbatim>\<open>calculate_emi\<close> returns
  the plain quotient \<open>P / N\<close>: the compounding formula is not evaluated.
\<close>

theorem calculate_emi_zero_rate:
  assumes "0 < P" and "0 < N"
  shows "calculate_emi P 0 N = Inr (P / N)"
  using assms by (simp add: calculate_emi_def py_div_def)

theorem calculate_emi_zero_rate_witness:
  "(0::real) < 1000 \<and> (0::real) < 8 \<and> calculate_emi 1000 0 8 = Inr 125"
  using calculate_emi_zero_rate [of 1000 8] by simp

text \<open>
  C10. The zero-rate branch of \<^verbatim>\<open>calculate_tenure\<close> divides by the payment outside
  the \<^verbatim>\<open>try\<close> block: with a zero rate and a zero payment the ZeroDivisionError
  leaves the function as it is, not as the ValueError carrying the tenure message.
\<close>

theorem calculate_tenure_zero_rate_zero_payment:
  "calculate_tenure P 0 0 = Inl ZeroDivisionError \<and>
   calculate_tenure P 0 0 \<noteq> Inl (ValueError tenure_message)"
  by (simp add: calculate_tenure_def py_div_def)

subsection \<open>The payment as a quotient by an annuity\<close>









subsection \<open>Tenure\<close>








subsection \<open>Rounding to two decimals\<close>








subsection \<open>The schedule loop\<close>







text \<open>A run of the whole function on a loan of 1200 over two periods at 100 percent a month.\<close>

lemma schedule_example:
  "generate_schedule 1200 1200 2 =
     Inr [\<lparr>Month = 1, EMI = 1600, Principal = 400, Interest = 1200, Balance = 800\<rparr>,
          \<lparr>Month = 2, EMI = 1600, Principal = 800, Interest = 800, Balance = 0\<rparr>]"
  by (simp add: generate_schedule_def calculate_emi_def py_pow_def py_div_def bind_result_def
      py_int_def py_range_def upto_rec1 loop_body_def Let_def py_round2_def round_half_even_def)

















subsection \<open>The rate solver\<close>













end
